theory Spec2Isabelle
  imports Main "HOL-Library.Word"
begin

section \<open>JavaScript strings\<close>

text \<open>
  A JavaScript string is a sequence of 16-bit code units, and \<open>length\<close> counts code
  units. String literals of the script are ASCII apart from the tail of the success
  message; \<open>lit\<close> turns an ASCII literal into its code units.
\<close>

type_synonym code_unit = "16 word"
type_synonym jsstring = "code_unit list"

definition lit :: "string \<Rightarrow> jsstring" where
  "lit s = map (\<lambda>c. of_nat (of_char c)) s"

text \<open>
  The code units that \<open>String.prototype.trim\<close> strips and that the class escape
  \<open>\s\<close> matches: ECMAScript's WhiteSpace (TAB, VT, FF, the space separators, ZWNBSP)
  together with its LineTerminator (LF, CR, LS, PS).
\<close>

definition is_white_space :: "code_unit \<Rightarrow> bool" where
  "is_white_space c \<longleftrightarrow>
     c \<in> set [0x0009, 0x000A, 0x000B, 0x000C, 0x000D, 0x0020, 0x00A0, 0x1680,
              0x2000, 0x2001, 0x2002, 0x2003, 0x2004, 0x2005, 0x2006, 0x2007,
              0x2008, 0x2009, 0x200A, 0x2028, 0x2029, 0x202F, 0x205F, 0x3000, 0xFEFF]"

definition trim :: "jsstring \<Rightarrow> jsstring" where
  "trim s = rev (dropWhile is_white_space (rev (dropWhile is_white_space s)))"

subsection \<open>The regular expressions the script uses\<close>

text \<open>
  The only pattern of the script is anchored at both ends and is a sequence of
  character classes, each taken once or with the greedy quantifier \<open>+\<close>. \<open>test\<close>
  is the backtracking matcher on such a pattern: \<open>+\<close> first tries to take one more
  code unit and falls back to the rest of the pattern.
\<close>

datatype quantifier = Once | OneOrMore

type_synonym pattern = "((code_unit \<Rightarrow> bool) \<times> quantifier) list"

fun test :: "pattern \<Rightarrow> jsstring \<Rightarrow> bool" where
  "test [] s = (s = [])"
| "test ((cls, Once) # p) s =
     (case s of [] \<Rightarrow> False | c # t \<Rightarrow> cls c \<and> test p t)"
| "test ((cls, OneOrMore) # p) s =
     (case s of [] \<Rightarrow> False
      | c # t \<Rightarrow> cls c \<and> (test ((cls, OneOrMore) # p) t \<or> test p t))"

text \<open>\<^verbatim>\<open>/^[^\s@]+@[^\s@]+\.[^\s@]+$/\<close>, with \<open>@\<close> = 0x40 and \<open>.\<close> = 0x2E.\<close>

definition emailRegex :: pattern where
  "emailRegex =
     [(\<lambda>c. \<not> (is_white_space c \<or> c = 0x40), OneOrMore),
      (\<lambda>c. c = 0x40, Once),
      (\<lambda>c. \<not> (is_white_space c \<or> c = 0x40), OneOrMore),
      (\<lambda>c. c = 0x2E, Once),
      (\<lambda>c. \<not> (is_white_space c \<or> c = 0x40), OneOrMore)]"

section \<open>The element tree\<close>

text \<open>
  The script reaches elements in three ways: \<open>document.body\<close>, \<open>getElementById\<close>
  and the node list of \<open>querySelectorAll\<close>. A node is accordingly the body, the
  element carrying a given id, or an element without id. The script reads and writes
  three properties of an element: its text content, its value (for inputs) and its
  class list, an ordered set of tokens.

  The markup is expected to hold every element the script looks up, each a leaf of
  its own (no looked-up element inside another one), with unique ids.
\<close>

datatype node = Body | ById string | Anon nat

record element =
  textContent :: jsstring
  inputValue :: jsstring
  classList :: "string list"

record document =
  elements :: "node \<Rightarrow> element"
  nextElementSibling :: "node \<Rightarrow> node option"

definition getElementById :: "string \<Rightarrow> node" where
  "getElementById i = ById i"

fun node_id :: "node \<Rightarrow> string" where
  "node_id (ById i) = i"
| "node_id Body = []"
| "node_id (Anon n) = []"

definition update :: "node \<Rightarrow> (element \<Rightarrow> element) \<Rightarrow> document \<Rightarrow> document" where
  "update n f d = d\<lparr>elements := (elements d)(n := f (elements d n))\<rparr>"

definition set_textContent :: "node \<Rightarrow> jsstring \<Rightarrow> document \<Rightarrow> document" where
  "set_textContent n t = update n (\<lambda>e. e\<lparr>textContent := t\<rparr>)"

definition set_inputValue :: "node \<Rightarrow> jsstring \<Rightarrow> document \<Rightarrow> document" where
  "set_inputValue n v = update n (\<lambda>e. e\<lparr>inputValue := v\<rparr>)"

definition classList_contains :: "string \<Rightarrow> element \<Rightarrow> bool" where
  "classList_contains t e \<longleftrightarrow> t \<in> set (classList e)"

definition classList_add :: "string \<Rightarrow> element \<Rightarrow> element" where
  "classList_add t e =
     (if t \<in> set (classList e) then e else e\<lparr>classList := classList e @ [t]\<rparr>)"

definition classList_remove :: "string \<Rightarrow> element \<Rightarrow> element" where
  "classList_remove t e = e\<lparr>classList := removeAll t (classList e)\<rparr>"

definition classList_toggle :: "string \<Rightarrow> element \<Rightarrow> element" where
  "classList_toggle t e =
     (if t \<in> set (classList e) then classList_remove t e else classList_add t e)"

section \<open>Light/dark mode toggle\<close>

definition themeToggleBtn :: node where
  "themeToggleBtn = getElementById ''theme-toggle''"

definition themeToggle_click :: "document \<Rightarrow> document" where
  "themeToggle_click d0 =
     (let d = update Body (classList_toggle ''dark-mode'') d0
      in if classList_contains ''dark-mode'' (elements d Body)
         then set_textContent themeToggleBtn (lit ''Switch to Light Mode'') d
         else set_textContent themeToggleBtn (lit ''Switch to Dark Mode'') d)"

section \<open>Collapsible FAQ section\<close>

text \<open>
  The handler attached to one question. Reading \<open>classList\<close> of a missing sibling
  throws before anything is written.
\<close>

datatype error = TypeError

definition faqQuestion_click :: "node \<Rightarrow> document \<Rightarrow> error + document" where
  "faqQuestion_click question d =
     (case nextElementSibling d question of
        None \<Rightarrow> Inl TypeError
      | Some answer \<Rightarrow>
          Inr (update question (classList_toggle ''active'')
                (update answer (classList_toggle ''show'') d)))"

section \<open>Custom form validation\<close>

definition form :: node where
  "form = getElementById ''contact-form''"

definition nameInput :: node where
  "nameInput = getElementById ''name''"

definition emailInput :: node where
  "emailInput = getElementById ''email''"

definition passwordInput :: node where
  "passwordInput = getElementById ''password''"

definition confirmPasswordInput :: node where
  "confirmPasswordInput = getElementById ''confirm-password''"

definition successMessage :: node where
  "successMessage = getElementById ''form-success-message''"

definition displayError :: "node \<Rightarrow> jsstring \<Rightarrow> document \<Rightarrow> document" where
  "displayError inputElement errorMessage d =
     (let errorSpan = getElementById (node_id inputElement @ ''-error'');
          d = set_textContent errorSpan errorMessage d
      in update inputElement (classList_add ''invalid'') d)"

definition clearError :: "node \<Rightarrow> document \<Rightarrow> document" where
  "clearError inputElement d =
     (let errorSpan = getElementById (node_id inputElement @ ''-error'');
          d = set_textContent errorSpan [] d
      in update inputElement (classList_remove ''invalid'') d)"

definition validateForm :: "document \<Rightarrow> bool \<times> document" where
  "validateForm d0 =
     (let isValid = True;
          d = clearError nameInput d0;
          d = clearError emailInput d;
          d = clearError passwordInput d;
          d = clearError confirmPasswordInput d;
          d = set_textContent successMessage [] d;
          (isValid, d) =
            (if length (trim (inputValue (elements d nameInput))) < 3
             then (False,
                   displayError nameInput (lit ''Name must be at least 3 characters long.'') d)
             else (isValid, d));
          (isValid, d) =
            (if \<not> test emailRegex (trim (inputValue (elements d emailInput)))
             then (False, displayError emailInput (lit ''Please enter a valid email address.'') d)
             else (isValid, d));
          (isValid, d) =
            (if length (inputValue (elements d passwordInput)) < 8
             then (False,
                   displayError passwordInput (lit ''Password must be at least 8 characters.'') d)
             else (isValid, d));
          (isValid, d) =
            (if inputValue (elements d confirmPasswordInput)
                  \<noteq> inputValue (elements d passwordInput)
             then (False, displayError confirmPasswordInput (lit ''Passwords do not match.'') d)
             else (isValid, d))
      in (isValid, d))"

text \<open>
  Modelled from the spec: the page markup is not part of the sources, and
  \<open>form.reset()\<close> gives every control of the form the initial value its markup
  states. The spec says that a reset leaves the four fields empty, so the initial
  value of each input is taken to be the empty string.
\<close>

definition defaultValue :: "node \<Rightarrow> jsstring" where
  "defaultValue n = []"

definition form_reset :: "document \<Rightarrow> document" where
  "form_reset d0 =
     (let d = set_inputValue nameInput (defaultValue nameInput) d0;
          d = set_inputValue emailInput (defaultValue emailInput) d;
          d = set_inputValue passwordInput (defaultValue passwordInput) d;
          d = set_inputValue confirmPasswordInput (defaultValue confirmPasswordInput) d
      in d)"

text \<open>The submit event, as far as the handler touches it.\<close>

record submit_event =
  defaultPrevented :: bool

definition preventDefault :: "submit_event \<Rightarrow> submit_event" where
  "preventDefault e = e\<lparr>defaultPrevented := True\<rparr>"

text \<open>
  The success message ends in the four code units U+00F0, U+0178, U+017D, U+2030
  that the source file holds after the exclamation mark and the space.
\<close>

definition successText :: jsstring where
  "successText = lit ''Form submitted successfully! '' @ [0x00F0, 0x0178, 0x017D, 0x2030]"

definition form_submit :: "submit_event \<Rightarrow> document \<Rightarrow> submit_event \<times> document" where
  "form_submit e0 d0 =
     (let e = preventDefault e0;
          (ok, d) = validateForm d0
      in if ok
         then (e, form_reset (set_textContent successMessage successText d))
         else (e, set_textContent successMessage [] d))"

definition nameInput_keyup :: "document \<Rightarrow> document" where
  "nameInput_keyup d =
     (if length (trim (inputValue (elements d nameInput))) \<ge> 3
      then clearError nameInput d else d)"

definition emailInput_keyup :: "document \<Rightarrow> document" where
  "emailInput_keyup d =
     (if test emailRegex (trim (inputValue (elements d emailInput)))
      then clearError emailInput d else d)"

definition passwordInput_keyup :: "document \<Rightarrow> document" where
  "passwordInput_keyup d =
     (if length (inputValue (elements d passwordInput)) \<ge> 8
      then clearError passwordInput d else d)"

definition confirmPasswordInput_keyup :: "document \<Rightarrow> document" where
  "confirmPasswordInput_keyup d =
     (if inputValue (elements d confirmPasswordInput) = inputValue (elements d passwordInput)
      then clearError confirmPasswordInput d else d)"

text \<open>The key-release listeners, in the order the script registers them.\<close>

definition keyup_listeners :: "(node \<times> (document \<Rightarrow> document)) list" where
  "keyup_listeners =
     [(nameInput, nameInput_keyup), (emailInput, emailInput_keyup),
      (passwordInput, passwordInput_keyup),
      (confirmPasswordInput, confirmPasswordInput_keyup)]"

section \<open>Observations\<close>

text \<open>
  What a user sees of a form field: the text of its error display, whether the input
  carries the \<open>invalid\<close> marker, and the value it holds.
\<close>

definition errorText :: "node \<Rightarrow> document \<Rightarrow> jsstring" where
  "errorText inputElement d =
     textContent (elements d (getElementById (node_id inputElement @ ''-error'')))"

definition invalid :: "node \<Rightarrow> document \<Rightarrow> bool" where
  "invalid inputElement d \<longleftrightarrow> classList_contains ''invalid'' (elements d inputElement)"

definition fieldValue :: "node \<Rightarrow> document \<Rightarrow> jsstring" where
  "fieldValue inputElement d = inputValue (elements d inputElement)"

text \<open>The four rules, as the key-release handlers test them.\<close>

definition name_rule :: "document \<Rightarrow> bool" where
  "name_rule d \<longleftrightarrow> length (trim (fieldValue nameInput d)) \<ge> 3"

definition email_rule :: "document \<Rightarrow> bool" where
  "email_rule d \<longleftrightarrow> test emailRegex (trim (fieldValue emailInput d))"

definition password_rule :: "document \<Rightarrow> bool" where
  "password_rule d \<longleftrightarrow> length (fieldValue passwordInput d) \<ge> 8"

definition confirm_rule :: "document \<Rightarrow> bool" where
  "confirm_rule d \<longleftrightarrow> fieldValue confirmPasswordInput d = fieldValue passwordInput d"

text \<open>The rule of a field, for the four fields of the form.\<close>

definition field_rule :: "node \<Rightarrow> document \<Rightarrow> bool" where
  "field_rule inputElement d =
     (if inputElement = nameInput then name_rule d
      else if inputElement = emailInput then email_rule d
      else if inputElement = passwordInput then password_rule d
      else confirm_rule d)"

definition fields :: "node list" where
  "fields = [nameInput, emailInput, passwordInput, confirmPasswordInput]"

text \<open>
  A page is consistent when every field shows an error text exactly when it carries
  the invalid marker.
\<close>

definition consistent :: "document \<Rightarrow> bool" where
  "consistent d \<longleftrightarrow> list_all (\<lambda>f. (errorText f d \<noteq> []) = invalid f d) fields"

text \<open>The theme as a user sees it: the marker on the page root and the label.\<close>

definition darkMode :: "document \<Rightarrow> bool" where
  "darkMode d \<longleftrightarrow> classList_contains ''dark-mode'' (elements d Body)"

definition themeLabel :: "document \<Rightarrow> jsstring" where
  "themeLabel d = textContent (elements d themeToggleBtn)"

text \<open>
  The two halves of \<open>validateForm\<close>: the statements that clear, and one conditional
  \<open>displayError\<close>.
\<close>

definition cleared :: "document \<Rightarrow> document" where
  "cleared d =
     set_textContent successMessage []
       (clearError confirmPasswordInput (clearError passwordInput
         (clearError emailInput (clearError nameInput d))))"

definition flag :: "bool \<Rightarrow> node \<Rightarrow> jsstring \<Rightarrow> document \<Rightarrow> document" where
  "flag ok inputElement errorMessage d =
     (if ok then d else displayError inputElement errorMessage d)"

section \<open>Events\<close>

text \<open>
  What can happen to the form between two looks at it: a submission, a key release
  in some element (which runs the listeners registered for that element), and the
  user changing the value of an input.
\<close>

datatype form_event = Submit | Keyup node | Edit node jsstring

fun fire :: "form_event \<Rightarrow> document \<Rightarrow> document" where
  "fire Submit d = snd (form_submit \<lparr>defaultPrevented = False\<rparr> d)"
| "fire (Keyup target) d =
     fold (\<lambda>(n, listener) d. if n = target then listener d else d) keyup_listeners d"
| "fire (Edit n v) d = set_inputValue n v d"

section \<open>Example pages\<close>

text \<open>Every element blank, and the four inputs filled in.\<close>

definition blank :: element where
  "blank = \<lparr>textContent = [], inputValue = [], classList = []\<rparr>"

definition filled :: "string \<Rightarrow> string \<Rightarrow> string \<Rightarrow> string \<Rightarrow> document" where
  "filled n e p c =
     set_inputValue confirmPasswordInput (lit c)
       (set_inputValue passwordInput (lit p)
         (set_inputValue emailInput (lit e)
           (set_inputValue nameInput (lit n)
             \<lparr>elements = (\<lambda>_. blank), nextElementSibling = (\<lambda>_. None)\<rparr>)))"


text \<open>
  The page after a failed pass whose short name has since been retyped: the name
  error and marker of the pass are still displayed.
\<close>

definition retyped :: document where
  "retyped =
     set_inputValue nameInput (lit ''Alice'')
       (snd (validateForm (filled ''Al'' ''alice@example.com'' ''password1'' ''password1'')))"

text \<open>A page that still shows an error and a success message from earlier.\<close>

definition stale :: document where
  "stale =
     displayError emailInput (lit ''stale error'')
       (set_textContent successMessage (lit ''old message'')
         (filled ''Al'' ''a@b.com'' ''longpass1'' ''longpass1''))"

text \<open>A page whose toggle button carries a label of the markup's own.\<close>

definition theme_page :: document where
  "theme_page =
     \<lparr>elements = (\<lambda>_. blank)(themeToggleBtn := blank\<lparr>textContent := lit ''Toggle Theme''\<rparr>),
      nextElementSibling = (\<lambda>_. None)\<rparr>"

text \<open>
  Two FAQ pairs: questions \<open>Anon 0\<close> and \<open>Anon 2\<close>, each followed by its answer;
  the second answer is open.
\<close>

definition faq_page :: document where
  "faq_page =
     \<lparr>elements = (\<lambda>_. blank)(Anon 3 := blank\<lparr>classList := [''faq-answer'', ''show'']\<rparr>),
      nextElementSibling =
        (\<lambda>n. case n of Anon k \<Rightarrow> (if even k then Some (Anon (Suc k)) else None)
                | _ \<Rightarrow> None)\<rparr>"

section \<open>Basic facts\<close>

lemmas nodes_def = nameInput_def emailInput_def passwordInput_def confirmPasswordInput_def
  successMessage_def getElementById_def

lemmas dom_defs = update_def set_textContent_def set_inputValue_def classList_contains_def
  classList_add_def classList_remove_def

lemmas rule_defs = name_rule_def email_rule_def password_rule_def confirm_rule_def

subsection \<open>The matcher and the language of the pattern\<close>

text \<open>
  \<open>test\<close> accepts exactly the strings the pattern describes: a class taken once
  consumes one code unit of the class, a class under \<open>+\<close> a non-empty run of them.
  For the email pattern this is: a local part, \<open>@\<close>, and a domain with a dot
  inside, none of the three parts empty or holding white space or \<open>@\<close>.
\<close>

lemma test_Once:
  "test ((cls, Once) # p) s \<longleftrightarrow> (\<exists>c t. s = c # t \<and> cls c \<and> test p t)"
  by (cases s) simp_all

lemma test_OneOrMore:
  "test ((cls, OneOrMore) # p) s \<longleftrightarrow>
     (\<exists>u t. s = u @ t \<and> u \<noteq> [] \<and> (\<forall>c\<in>set u. cls c) \<and> test p t)"
proof (induction s)
  case Nil
  then show ?case by simp
next
  case (Cons c s)
  show ?case
  proof
    assume "test ((cls, OneOrMore) # p) (c # s)"
    then have c: "cls c" and "test ((cls, OneOrMore) # p) s \<or> test p s"
      by simp_all
    then consider "test ((cls, OneOrMore) # p) s" | "test p s"
      by blast
    then show "\<exists>u t. c # s = u @ t \<and> u \<noteq> [] \<and> (\<forall>c\<in>set u. cls c) \<and> test p t"
    proof cases
      case 1
      then obtain u t where "s = u @ t" "\<forall>c\<in>set u. cls c" "test p t"
        using Cons.IH by blast
      with c have "c # s = (c # u) @ t \<and> c # u \<noteq> [] \<and> (\<forall>x\<in>set (c # u). cls x) \<and> test p t"
        by simp
      then show ?thesis by blast
    next
      case 2
      with c have "c # s = [c] @ s \<and> [c] \<noteq> [] \<and> (\<forall>x\<in>set [c]. cls x) \<and> test p s"
        by simp
      then show ?thesis by blast
    qed
  next
    assume "\<exists>u t. c # s = u @ t \<and> u \<noteq> [] \<and> (\<forall>c\<in>set u. cls c) \<and> test p t"
    then obtain u t where ut: "c # s = u @ t" "u \<noteq> []" "\<forall>c\<in>set u. cls c" "test p t"
      by blast
    then obtain u' where u: "u = c # u'" "s = u' @ t"
      by (cases u) auto
    show "test ((cls, OneOrMore) # p) (c # s)"
    proof (cases "u' = []")
      case True
      with ut u show ?thesis by simp
    next
      case False
      with ut u have "test ((cls, OneOrMore) # p) s"
        using Cons.IH by auto
      with ut u show ?thesis by simp
    qed
  qed
qed

lemma test_emailRegex:
  "test emailRegex s \<longleftrightarrow>
     (\<exists>a b c. s = a @ [0x40] @ b @ [0x2E] @ c \<and> a \<noteq> [] \<and> b \<noteq> [] \<and> c \<noteq> []
        \<and> (\<forall>x\<in>set (a @ b @ c). \<not> (is_white_space x \<or> x = 0x40)))"
  (is "?l \<longleftrightarrow> ?r")
proof
  let ?ok = "\<lambda>c. \<not> (is_white_space c \<or> c = 0x40)"
  assume ?l
  then obtain a t1 where a: "s = a @ t1" "a \<noteq> []" "\<forall>x\<in>set a. ?ok x"
    and "test [(\<lambda>c. c = 0x40, Once), (?ok, OneOrMore), (\<lambda>c. c = 0x2E, Once),
               (?ok, OneOrMore)] t1"
    unfolding emailRegex_def test_OneOrMore by blast
  then obtain t2 where t1: "t1 = 0x40 # t2"
    and "test [(?ok, OneOrMore), (\<lambda>c. c = 0x2E, Once), (?ok, OneOrMore)] t2"
    unfolding test_Once by blast
  then obtain b t3 where b: "t2 = b @ t3" "b \<noteq> []" "\<forall>x\<in>set b. ?ok x"
    and "test [(\<lambda>c. c = 0x2E, Once), (?ok, OneOrMore)] t3"
    unfolding test_OneOrMore by blast
  then obtain t4 where t3: "t3 = 0x2E # t4" and "test [(?ok, OneOrMore)] t4"
    unfolding test_Once by blast
  then obtain c where c: "t4 = c" "c \<noteq> []" "\<forall>x\<in>set c. ?ok x"
    unfolding test_OneOrMore by auto
  have "s = a @ [0x40] @ b @ [0x2E] @ c"
    by (simp add: a t1 b t3 c)
  moreover have "\<forall>x\<in>set (a @ b @ c). ?ok x"
    using a b c by auto
  ultimately show ?r
    using a b c by blast
next
  let ?ok = "\<lambda>c. \<not> (is_white_space c \<or> c = 0x40)"
  assume ?r
  then obtain a b c where s: "s = a @ [0x40] @ b @ [0x2E] @ c"
    and n: "a \<noteq> []" "b \<noteq> []" "c \<noteq> []"
    and ok: "\<forall>x\<in>set a. ?ok x" "\<forall>x\<in>set b. ?ok x" "\<forall>x\<in>set c. ?ok x"
    by auto
  have 1: "test [(?ok, OneOrMore)] c"
    unfolding test_OneOrMore using n ok by auto
  have 2: "test [(\<lambda>c. c = 0x2E, Once), (?ok, OneOrMore)] (0x2E # c)"
    unfolding test_Once using 1 by blast
  have 3: "test [(?ok, OneOrMore), (\<lambda>c. c = 0x2E, Once), (?ok, OneOrMore)] (b @ 0x2E # c)"
    unfolding test_OneOrMore [of ?ok "[(\<lambda>c. c = 0x2E, Once), (?ok, OneOrMore)]"]
    using 2 n ok by blast
  have 4: "test [(\<lambda>c. c = 0x40, Once), (?ok, OneOrMore), (\<lambda>c. c = 0x2E, Once),
               (?ok, OneOrMore)] (0x40 # b @ 0x2E # c)"
    unfolding test_Once [of "\<lambda>c. c = 0x40"] using 3 by blast
  have "test emailRegex (a @ 0x40 # b @ 0x2E # c)"
    unfolding emailRegex_def
      test_OneOrMore [of ?ok "[(\<lambda>c. c = 0x40, Once), (?ok, OneOrMore),
                              (\<lambda>c. c = 0x2E, Once), (?ok, OneOrMore)]"]
    using 4 n ok by blast
  then show ?l
    by (simp add: s)
qed

subsection \<open>Trimming\<close>

lemma trim_white_space_only:
  assumes "\<forall>c\<in>set s. is_white_space c"
  shows "trim s = []"
proof -
  have e: "dropWhile is_white_space s = []"
    using assms by (simp only: dropWhile_eq_Nil_conv)
  show ?thesis
    unfolding trim_def e by simp
qed

lemma trim_examples:
  "trim (lit ''  Al '') = lit ''Al''"
  "trim (lit '' Bob  '') = lit ''Bob''"
  "trim (lit ''   '') = []"
  by (simp_all add: lit_def trim_def is_white_space_def)

lemma lit_not_Nil: "s \<noteq> [] \<Longrightarrow> lit s \<noteq> []"
  by (simp add: lit_def)

subsection \<open>Documents\<close>

lemma document_eqI:
  fixes d1 d2 :: document
  assumes "\<And>n. elements d1 n = elements d2 n"
    and "nextElementSibling d1 = nextElementSibling d2"
    and "document.more d1 = document.more d2"
  shows "d1 = d2"
  using assms by (intro document.equality ext) simp_all

lemma more_update: "document.more (update n f d) = document.more d"
  by (simp add: update_def)

lemma nextElementSibling_update: "nextElementSibling (update n f d) = nextElementSibling d"
  by (simp add: update_def)

lemma elements_set_textContent:
  "elements (set_textContent i t d) n =
     (if n = i then (elements d n)\<lparr>textContent := t\<rparr> else elements d n)"
  by (simp add: dom_defs)

lemma elements_displayError:
  "elements (displayError (ById j) m d) n =
     (if n = ById j then classList_add ''invalid'' (elements d n)
      else if n = ById (j @ ''-error'') then (elements d n)\<lparr>textContent := m\<rparr>
      else elements d n)"
  by (simp add: displayError_def Let_def dom_defs getElementById_def)

lemma elements_clearError:
  "elements (clearError (ById j) d) n =
     (if n = ById j then classList_remove ''invalid'' (elements d n)
      else if n = ById (j @ ''-error'') then (elements d n)\<lparr>textContent := []\<rparr>
      else elements d n)"
  by (simp add: clearError_def Let_def dom_defs getElementById_def)


lemma frame_clearError:
  "nextElementSibling (clearError i d) = nextElementSibling d"
  "document.more (clearError i d) = document.more d"
  by (simp_all add: clearError_def Let_def set_textContent_def more_update nextElementSibling_update)

lemma frame_displayError:
  "nextElementSibling (displayError i m d) = nextElementSibling d"
  "document.more (displayError i m d) = document.more d"
  by (simp_all add: displayError_def Let_def set_textContent_def more_update nextElementSibling_update)

lemma frame_set_textContent:
  "nextElementSibling (set_textContent i t d) = nextElementSibling d"
  "document.more (set_textContent i t d) = document.more d"
  by (simp_all add: set_textContent_def more_update nextElementSibling_update)

lemma frame_cleared:
  "nextElementSibling (cleared d) = nextElementSibling d"
  "document.more (cleared d) = document.more d"
  by (simp_all add: cleared_def frame_clearError frame_set_textContent)

lemma set_textContent_same:
  assumes "textContent (elements d n) = t"
  shows "set_textContent n t d = d"
proof -
  have "(elements d n)\<lparr>textContent := t\<rparr> = elements d n"
    using assms by (cases "elements d n") auto
  then show ?thesis
    by (simp add: dom_defs)
qed

lemma textContent_set_textContent:
  "textContent (elements (set_textContent n t d) n) = t"
  by (simp add: dom_defs)

lemma classList_set_textContent:
  "classList (elements (set_textContent i t d) n) = classList (elements d n)"
  by (simp add: dom_defs)

lemma textContent_set_inputValue:
  "textContent (elements (set_inputValue i v d) n) = textContent (elements d n)"
  by (simp add: dom_defs)

lemma classList_set_inputValue:
  "classList (elements (set_inputValue i v d) n) = classList (elements d n)"
  by (simp add: dom_defs)


lemma classList_remove_add:
  "classList_remove t (classList_add t e) = classList_remove t e"
  by (simp add: classList_remove_def classList_add_def)

lemma classList_toggle_thrice:
  "classList_toggle t (classList_toggle t (classList_toggle t e)) = classList_toggle t e"
  by (simp add: classList_toggle_def classList_add_def classList_remove_def)

lemma contains_toggle:
  "classList_contains t (classList_toggle u e) =
     (if t = u then \<not> classList_contains t e else classList_contains t e)"
  by (simp add: classList_contains_def classList_toggle_def classList_add_def
        classList_remove_def)

lemma textContent_toggle: "textContent (classList_toggle u e) = textContent e"
  by (simp add: classList_toggle_def classList_add_def classList_remove_def)

lemma inputValue_toggle: "inputValue (classList_toggle u e) = inputValue e"
  by (simp add: classList_toggle_def classList_add_def classList_remove_def)

lemma inputs_distinct:
  "nameInput \<noteq> emailInput" "nameInput \<noteq> passwordInput"
  "nameInput \<noteq> confirmPasswordInput" "emailInput \<noteq> nameInput"
  "emailInput \<noteq> passwordInput" "emailInput \<noteq> confirmPasswordInput"
  "passwordInput \<noteq> nameInput" "passwordInput \<noteq> emailInput"
  "passwordInput \<noteq> confirmPasswordInput" "confirmPasswordInput \<noteq> nameInput"
  "confirmPasswordInput \<noteq> emailInput" "confirmPasswordInput \<noteq> passwordInput"
  by (simp_all add: nodes_def)

subsection \<open>Values\<close>

lemma fieldValue_clearError: "fieldValue n (clearError i d) = fieldValue n d"
  by (simp add: fieldValue_def clearError_def Let_def dom_defs)

lemma fieldValue_displayError: "fieldValue n (displayError i m d) = fieldValue n d"
  by (simp add: fieldValue_def displayError_def Let_def dom_defs)

lemma fieldValue_set_textContent: "fieldValue n (set_textContent i t d) = fieldValue n d"
  by (simp add: fieldValue_def dom_defs)

lemma fieldValue_set_inputValue:
  "fieldValue n (set_inputValue i v d) = (if n = i then v else fieldValue n d)"
  by (simp add: fieldValue_def dom_defs)

lemmas fieldValue_simps = fieldValue_clearError fieldValue_displayError fieldValue_set_textContent

lemma fieldValue_flag: "fieldValue n (flag b i m d) = fieldValue n d"
  by (simp add: flag_def fieldValue_simps)

lemma fieldValue_cleared: "fieldValue n (cleared d) = fieldValue n d"
  by (simp add: cleared_def fieldValue_simps)

lemma fieldValue_filled:
  "fieldValue nameInput (filled n e p c) = lit n"
  "fieldValue emailInput (filled n e p c) = lit e"
  "fieldValue passwordInput (filled n e p c) = lit p"
  "fieldValue confirmPasswordInput (filled n e p c) = lit c"
  by (simp_all add: filled_def fieldValue_set_inputValue nodes_def)

subsection \<open>The validation pass, unfolded\<close>

lemma validateForm_unfold:
  "validateForm d =
     (name_rule d \<and> email_rule d \<and> password_rule d \<and> confirm_rule d,
      flag (confirm_rule d) confirmPasswordInput (lit ''Passwords do not match.'')
       (flag (password_rule d) passwordInput (lit ''Password must be at least 8 characters.'')
         (flag (email_rule d) emailInput (lit ''Please enter a valid email address.'')
           (flag (name_rule d) nameInput (lit ''Name must be at least 3 characters long.'')
             (cleared d)))))"
proof -
  have v: "\<And>n x. inputValue (elements x n) = fieldValue n x"
    by (simp add: fieldValue_def)
  show ?thesis
    unfolding validateForm_def Let_def v cleared_def [symmetric]
    by (simp add: rule_defs flag_def fieldValue_simps fieldValue_cleared not_less)
qed

lemma fst_validateForm:
  "fst (validateForm d) = (name_rule d \<and> email_rule d \<and> password_rule d \<and> confirm_rule d)"
  by (simp add: validateForm_unfold)

lemma fieldValue_validateForm: "fieldValue n (snd (validateForm d)) = fieldValue n d"
  by (simp add: validateForm_unfold fieldValue_flag fieldValue_cleared)

subsection \<open>Error displays and markers\<close>

lemma errorText_displayError:
  "errorText (ById i) (displayError (ById j) m d) = (if i = j then m else errorText (ById i) d)"
  by (simp add: errorText_def displayError_def Let_def dom_defs getElementById_def)

lemma errorText_clearError:
  "errorText (ById i) (clearError (ById j) d) = (if i = j then [] else errorText (ById i) d)"
  by (simp add: errorText_def clearError_def Let_def dom_defs getElementById_def)

lemma errorText_set_textContent:
  "errorText (ById i) (set_textContent (ById s) t d) =
     (if s = i @ ''-error'' then t else errorText (ById i) d)"
  by (simp add: errorText_def dom_defs getElementById_def)

lemma invalid_displayError: "invalid n (displayError i m d) = (n = i \<or> invalid n d)"
  by (simp add: invalid_def displayError_def Let_def dom_defs)

lemma invalid_clearError: "invalid n (clearError i d) = (n \<noteq> i \<and> invalid n d)"
  by (simp add: invalid_def clearError_def Let_def dom_defs)

lemma invalid_set_textContent: "invalid n (set_textContent i t d) = invalid n d"
  by (simp add: invalid_def dom_defs)

lemma errorText_flag:
  "errorText (ById i) (flag ok (ById j) m d) =
     (if i = j \<and> \<not> ok then m else errorText (ById i) d)"
  by (simp add: flag_def errorText_displayError)

lemma invalid_flag: "invalid n (flag ok i m d) = (n = i \<and> \<not> ok \<or> invalid n d)"
  by (auto simp add: flag_def invalid_displayError)

lemma textContent_flag:
  "textContent (elements (flag ok (ById j) m d) (ById s)) =
     (if s = j @ ''-error'' \<and> \<not> ok then m else textContent (elements d (ById s)))"
  by (simp add: flag_def displayError_def Let_def dom_defs getElementById_def)

lemma errorText_cleared:
  "i \<in> {''name'', ''email'', ''password'', ''confirm-password''} \<Longrightarrow>
     errorText (ById i) (cleared d) = []"
  by (auto simp add: cleared_def nodes_def errorText_clearError errorText_set_textContent)

lemma invalid_cleared:
  "n \<in> {nameInput, emailInput, passwordInput, confirmPasswordInput} \<Longrightarrow>
     \<not> invalid n (cleared d)"
  by (auto simp add: cleared_def invalid_clearError invalid_set_textContent)

lemma successMessage_cleared: "textContent (elements (cleared d) successMessage) = []"
  by (simp add: cleared_def nodes_def dom_defs)

lemma successMessage_validateForm:
  "textContent (elements (snd (validateForm d)) successMessage) = []"
  using successMessage_cleared [of d]
  by (simp add: validateForm_unfold nodes_def textContent_flag)

lemma errorText_validateForm:
  "errorText nameInput (snd (validateForm d)) =
     (if name_rule d then [] else lit ''Name must be at least 3 characters long.'')"
  "errorText emailInput (snd (validateForm d)) =
     (if email_rule d then [] else lit ''Please enter a valid email address.'')"
  "errorText passwordInput (snd (validateForm d)) =
     (if password_rule d then [] else lit ''Password must be at least 8 characters.'')"
  "errorText confirmPasswordInput (snd (validateForm d)) =
     (if confirm_rule d then [] else lit ''Passwords do not match.'')"
  by (simp_all add: validateForm_unfold nodes_def errorText_flag
        errorText_cleared [unfolded nodes_def])

lemma invalid_validateForm:
  "invalid nameInput (snd (validateForm d)) = (\<not> name_rule d)"
  "invalid emailInput (snd (validateForm d)) = (\<not> email_rule d)"
  "invalid passwordInput (snd (validateForm d)) = (\<not> password_rule d)"
  "invalid confirmPasswordInput (snd (validateForm d)) = (\<not> confirm_rule d)"
  by (simp_all add: validateForm_unfold nodes_def invalid_flag
        invalid_cleared [unfolded nodes_def])


lemma errorText_set_inputValue: "errorText i (set_inputValue n v d) = errorText i d"
  by (simp add: errorText_def dom_defs)

lemma invalid_set_inputValue: "invalid i (set_inputValue n v d) = invalid i d"
  by (simp add: invalid_def dom_defs)

lemma rule_validateForm:
  "name_rule (snd (validateForm d)) = name_rule d"
  "email_rule (snd (validateForm d)) = email_rule d"
  "password_rule (snd (validateForm d)) = password_rule d"
  "confirm_rule (snd (validateForm d)) = confirm_rule d"
  by (simp_all add: rule_defs fieldValue_validateForm)

lemma email_rule_empty: "fieldValue emailInput d = [] \<Longrightarrow> \<not> email_rule d"
  by (simp add: email_rule_def trim_def emailRegex_def)

subsection \<open>Clearing absorbs what a pass displays\<close>

lemma clearError_displayError_same:
  "clearError (ById j) (displayError (ById j) m d) = clearError (ById j) d"
  by (rule document_eqI)
     (simp_all add: elements_clearError elements_displayError classList_remove_add
        frame_clearError frame_displayError)

lemma clearError_displayError_commute:
  "i \<noteq> j \<Longrightarrow>
     clearError (ById i) (displayError (ById j) m d)
       = displayError (ById j) m (clearError (ById i) d)"
  by (rule document_eqI)
     (auto simp add: elements_clearError elements_displayError classList_remove_def
        classList_add_def frame_clearError frame_displayError)

lemma cleared_displayError:
  "cleared (displayError nameInput m d) = cleared d"
  "cleared (displayError emailInput m d) = cleared d"
  "cleared (displayError passwordInput m d) = cleared d"
  "cleared (displayError confirmPasswordInput m d) = cleared d"
  by (simp_all add: cleared_def nodes_def clearError_displayError_same
        clearError_displayError_commute)

lemma cleared_flag:
  "cleared (flag ok nameInput m d) = cleared d"
  "cleared (flag ok emailInput m d) = cleared d"
  "cleared (flag ok passwordInput m d) = cleared d"
  "cleared (flag ok confirmPasswordInput m d) = cleared d"
  by (simp_all add: flag_def cleared_displayError)

lemma clearError_same:
  assumes "errorText (ById j) d = []" and "\<not> invalid (ById j) d"
  shows "clearError (ById j) d = d"
proof (rule document_eqI)
  fix n
  have "(elements d (ById (j @ ''-error'')))\<lparr>textContent := []\<rparr>
          = elements d (ById (j @ ''-error''))"
    using assms(1) by (cases "elements d (ById (j @ ''-error''))")
      (auto simp add: errorText_def getElementById_def)
  moreover have "classList_remove ''invalid'' (elements d (ById j)) = elements d (ById j)"
    using assms(2) by (cases "elements d (ById j)")
      (auto simp add: invalid_def classList_contains_def classList_remove_def)
  ultimately show "elements (clearError (ById j) d) n = elements d n"
    by (simp add: elements_clearError)
qed (simp_all add: frame_clearError)

lemma cleared_idem: "cleared (cleared d) = cleared d"
proof -
  have "clearError nameInput (cleared d) = cleared d"
    "clearError emailInput (cleared d) = cleared d"
    "clearError passwordInput (cleared d) = cleared d"
    "clearError confirmPasswordInput (cleared d) = cleared d"
    using invalid_cleared [of _ d]
    by (simp_all add: nodes_def clearError_same errorText_cleared)
  moreover have "set_textContent successMessage [] (cleared d) = cleared d"
    by (rule set_textContent_same) (rule successMessage_cleared)
  ultimately show ?thesis
    by (simp add: cleared_def [of "cleared d"])
qed

lemma cleared_validateForm: "cleared (snd (validateForm d)) = cleared d"
  by (simp add: validateForm_unfold cleared_flag cleared_idem)

subsection \<open>Submission and reset\<close>

lemma form_submit_unfold:
  "form_submit e d =
     (preventDefault e,
      if fst (validateForm d)
      then form_reset (set_textContent successMessage successText (snd (validateForm d)))
      else set_textContent successMessage [] (snd (validateForm d)))"
  by (simp add: form_submit_def Let_def split_def)

lemma textContent_form_reset:
  "textContent (elements (form_reset d) n) = textContent (elements d n)"
  by (simp add: form_reset_def Let_def textContent_set_inputValue)

lemma classList_form_reset:
  "classList (elements (form_reset d) n) = classList (elements d n)"
  by (simp add: form_reset_def Let_def classList_set_inputValue)

lemma fieldValue_form_reset:
  "fieldValue nameInput (form_reset d) = []"
  "fieldValue emailInput (form_reset d) = []"
  "fieldValue passwordInput (form_reset d) = []"
  "fieldValue confirmPasswordInput (form_reset d) = []"
  by (simp_all add: form_reset_def Let_def fieldValue_set_inputValue defaultValue_def nodes_def)

lemma errorText_form_reset: "errorText f (form_reset d) = errorText f d"
  by (simp add: errorText_def textContent_form_reset)

lemma invalid_form_reset: "invalid f (form_reset d) = invalid f d"
  by (simp add: invalid_def classList_contains_def classList_form_reset)

lemma errorText_set_successMessage:
  "errorText nameInput (set_textContent successMessage t d) = errorText nameInput d"
  "errorText emailInput (set_textContent successMessage t d) = errorText emailInput d"
  "errorText passwordInput (set_textContent successMessage t d) = errorText passwordInput d"
  "errorText confirmPasswordInput (set_textContent successMessage t d)
     = errorText confirmPasswordInput d"
  by (simp_all add: nodes_def errorText_set_textContent)

lemma fieldValue_form_reset_other:
  "n \<notin> {nameInput, emailInput, passwordInput, confirmPasswordInput} \<Longrightarrow>
     fieldValue n (form_reset d) = fieldValue n d"
  by (simp add: form_reset_def Let_def fieldValue_set_inputValue)

lemma form_submit_pass:
  assumes "fst (validateForm d)"
  shows "snd (form_submit e d)
           = form_reset (set_textContent successMessage successText (snd (validateForm d)))"
  using assms by (simp add: form_submit_unfold)

lemma passed_errors:
  assumes "fst (validateForm d)"
  shows "errorText nameInput (snd (form_submit e d)) = []"
    "errorText emailInput (snd (form_submit e d)) = []"
    "errorText passwordInput (snd (form_submit e d)) = []"
    "errorText confirmPasswordInput (snd (form_submit e d)) = []"
    "\<not> invalid nameInput (snd (form_submit e d))"
    "\<not> invalid emailInput (snd (form_submit e d))"
    "\<not> invalid passwordInput (snd (form_submit e d))"
    "\<not> invalid confirmPasswordInput (snd (form_submit e d))"
  using assms
  unfolding form_submit_pass [OF assms] errorText_form_reset invalid_form_reset
    errorText_set_successMessage invalid_set_textContent
  by (simp_all add: fst_validateForm errorText_validateForm invalid_validateForm)

lemma passed_frame:
  assumes "fst (validateForm d)"
  shows "n \<noteq> successMessage \<Longrightarrow>
           textContent (elements (snd (form_submit e d)) n)
             = textContent (elements (snd (validateForm d)) n)"
    "classList (elements (snd (form_submit e d)) n)
       = classList (elements (snd (validateForm d)) n)"
    "n \<notin> {nameInput, emailInput, passwordInput, confirmPasswordInput} \<Longrightarrow>
       fieldValue n (snd (form_submit e d)) = fieldValue n d"
  unfolding form_submit_pass [OF assms]
  by (simp_all add: textContent_form_reset classList_form_reset elements_set_textContent
        classList_set_textContent fieldValue_form_reset_other fieldValue_set_textContent
        fieldValue_validateForm)

subsection \<open>Key-release listeners\<close>

lemma keyup_unfold:
  "nameInput_keyup d = (if name_rule d then clearError nameInput d else d)"
  "emailInput_keyup d = (if email_rule d then clearError emailInput d else d)"
  "passwordInput_keyup d = (if password_rule d then clearError passwordInput d else d)"
  "confirmPasswordInput_keyup d =
     (if confirm_rule d then clearError confirmPasswordInput d else d)"
  by (simp_all add: nameInput_keyup_def emailInput_keyup_def passwordInput_keyup_def
        confirmPasswordInput_keyup_def rule_defs fieldValue_def)

lemma field_rule_simps:
  "field_rule nameInput d = name_rule d"
  "field_rule emailInput d = email_rule d"
  "field_rule passwordInput d = password_rule d"
  "field_rule confirmPasswordInput d = confirm_rule d"
  by (simp_all add: field_rule_def nodes_def)

lemma keyup_listener_unfold:
  assumes "(f, h) \<in> set keyup_listeners"
  shows "h d = (if field_rule f d then clearError f d else d)"
proof -
  consider "f = nameInput" "h = nameInput_keyup"
    | "f = emailInput" "h = emailInput_keyup"
    | "f = passwordInput" "h = passwordInput_keyup"
    | "f = confirmPasswordInput" "h = confirmPasswordInput_keyup"
    using assms unfolding keyup_listeners_def by fastforce
  then show ?thesis
    by cases (simp_all only: field_rule_simps keyup_unfold)
qed

lemma fst_keyup_listeners: "(f, h) \<in> set keyup_listeners \<Longrightarrow> f \<in> set fields"
  unfolding keyup_listeners_def fields_def by fastforce


subsection \<open>Consistency of error text and marker\<close>

lemma consistent_validateForm: "consistent (snd (validateForm d))"
  by (simp add: consistent_def fields_def errorText_validateForm invalid_validateForm
        lit_not_Nil)

lemma consistent_cong:
  assumes "\<And>f. f \<in> set fields \<Longrightarrow> errorText f d' = errorText f d"
    and "\<And>f. f \<in> set fields \<Longrightarrow> invalid f d' = invalid f d"
  shows "consistent d' = consistent d"
  using assms by (simp add: consistent_def list_all_iff)

lemma consistent_set_successMessage:
  "consistent (set_textContent successMessage t d) = consistent d"
  by (rule consistent_cong)
     (auto simp add: fields_def nodes_def errorText_set_textContent invalid_set_textContent)

lemma consistent_form_reset: "consistent (form_reset d) = consistent d"
  by (rule consistent_cong)
     (simp_all add: errorText_def invalid_def classList_contains_def textContent_form_reset
        classList_form_reset)

lemma consistent_set_inputValue: "consistent (set_inputValue n v d) = consistent d"
  by (rule consistent_cong) (simp_all add: errorText_set_inputValue invalid_set_inputValue)

lemma consistent_form_submit: "consistent (snd (form_submit e d))"
  by (simp add: form_submit_unfold consistent_form_reset consistent_set_successMessage
        consistent_validateForm)

lemma fields_ById: "f \<in> set fields \<Longrightarrow> \<exists>i. f = ById i"
  unfolding fields_def nodes_def by fastforce

lemma consistent_clearError:
  assumes "consistent d" and "f \<in> set fields"
  shows "consistent (clearError f d)"
  unfolding consistent_def list_all_iff
proof
  fix g
  assume g: "g \<in> set fields"
  obtain i j where ij: "g = ById i" "f = ById j"
    using fields_ById [OF g] fields_ById [OF assms(2)] by blast
  have "(errorText g d \<noteq> []) = invalid g d"
    using assms(1) g by (simp add: consistent_def list_all_iff)
  then show "(errorText g (clearError f d) \<noteq> []) = invalid g (clearError f d)"
    by (simp add: ij errorText_clearError invalid_clearError)
qed

lemma consistent_keyup:
  assumes "consistent d" and "(f, h) \<in> set keyup_listeners"
  shows "consistent (h d)"
  unfolding keyup_listener_unfold [OF assms(2)]
  using assms by (simp add: consistent_clearError fst_keyup_listeners)

lemma consistent_dispatch:
  "consistent d \<Longrightarrow> set ls \<subseteq> set keyup_listeners \<Longrightarrow>
     consistent (fold (\<lambda>(n, listener) d. if n = target then listener d else d) ls d)"
proof (induction ls arbitrary: d)
  case Nil
  then show ?case by simp
next
  case (Cons l ls)
  obtain f h where l: "l = (f, h)" by (cases l)
  with Cons.prems have "(f, h) \<in> set keyup_listeners" by simp
  with Cons.prems have "consistent (h d)" by (simp add: consistent_keyup)
  with Cons show ?case by (simp add: l)
qed

lemma consistent_fire: "consistent d \<Longrightarrow> consistent (fire ev d)"
  by (cases ev)
     (simp_all add: consistent_form_submit consistent_dispatch consistent_set_inputValue)

lemma consistent_run: "consistent d \<Longrightarrow> consistent (fold fire evs d)"
  by (induction evs arbitrary: d) (simp_all add: consistent_fire)

subsection \<open>The theme toggle\<close>

lemma darkMode_click: "darkMode (themeToggle_click d) = (\<not> darkMode d)"
  by (simp add: darkMode_def themeToggle_click_def Let_def dom_defs classList_toggle_def
        themeToggleBtn_def getElementById_def)

lemma themeLabel_click:
  "themeLabel (themeToggle_click d) =
     (if darkMode d then lit ''Switch to Dark Mode'' else lit ''Switch to Light Mode'')"
  by (simp add: darkMode_def themeLabel_def themeToggle_click_def Let_def dom_defs classList_toggle_def
        themeToggleBtn_def getElementById_def)

lemma themeToggle_click_elements:
  "elements (themeToggle_click d) n =
     (if n = Body then classList_toggle ''dark-mode'' (elements d Body)
      else if n = themeToggleBtn
        then (elements d n)\<lparr>textContent :=
               (if darkMode d then lit ''Switch to Dark Mode''
                else lit ''Switch to Light Mode'')\<rparr>
      else elements d n)"
  by (simp add: darkMode_def themeToggle_click_def Let_def dom_defs classList_toggle_def
        themeToggleBtn_def getElementById_def)

lemma themeToggle_click_frame:
  "nextElementSibling (themeToggle_click d) = nextElementSibling d"
  "document.more (themeToggle_click d) = document.more d"
  by (simp_all add: themeToggle_click_def Let_def dom_defs classList_toggle_def)

lemma themeToggle_click_thrice:
  "themeToggle_click (themeToggle_click (themeToggle_click d)) = themeToggle_click d"
  by (rule document_eqI)
     (simp_all add: themeToggle_click_elements themeToggle_click_frame darkMode_click
        classList_toggle_thrice themeToggleBtn_def getElementById_def)

subsection \<open>The rules on the example pages\<close>

lemma rules_short_name:
  "\<not> name_rule (filled ''Al'' ''a@b.com'' ''longpass1'' ''longpass1'')"
  "email_rule (filled ''Al'' ''a@b.com'' ''longpass1'' ''longpass1'')"
  "password_rule (filled ''Al'' ''a@b.com'' ''longpass1'' ''longpass1'')"
  "confirm_rule (filled ''Al'' ''a@b.com'' ''longpass1'' ''longpass1'')"
  by (simp_all add: rule_defs fieldValue_filled lit_def trim_def is_white_space_def
        emailRegex_def)




lemma fieldValue_stale:
  "fieldValue n stale = fieldValue n (filled ''Al'' ''a@b.com'' ''longpass1'' ''longpass1'')"
  by (simp add: stale_def fieldValue_simps)

lemma consistent_filled: "consistent (filled n e p c)"
  by (simp add: consistent_def fields_def errorText_def invalid_def filled_def blank_def
        dom_defs nodes_def)

lemma rules_short_name_alice:
  "name_rule (filled ''Al'' ''alice@example.com'' ''password1'' ''password1'') = False"
  by (simp add: rule_defs fieldValue_filled lit_def trim_def is_white_space_def)

lemma retyped_facts:
  "errorText nameInput retyped = lit ''Name must be at least 3 characters long.''"
  "invalid nameInput retyped"
  "fst (validateForm retyped)"
proof -
  let ?d = "filled ''Al'' ''alice@example.com'' ''password1'' ''password1''"
  show "errorText nameInput retyped = lit ''Name must be at least 3 characters long.''"
    by (simp add: retyped_def errorText_set_inputValue errorText_validateForm
          rules_short_name_alice)
  show "invalid nameInput retyped"
    by (simp add: retyped_def invalid_set_inputValue invalid_validateForm
          rules_short_name_alice)
  have v: "fieldValue nameInput retyped = lit ''Alice''"
    "fieldValue emailInput retyped = lit ''alice@example.com''"
    "fieldValue passwordInput retyped = lit ''password1''"
    "fieldValue confirmPasswordInput retyped = lit ''password1''"
    by (simp_all add: retyped_def fieldValue_set_inputValue fieldValue_validateForm
          fieldValue_filled inputs_distinct)
  show "fst (validateForm retyped)"
    unfolding fst_validateForm rule_defs v
    by (simp add: lit_def trim_def is_white_space_def emailRegex_def)
qed

section \<open>The validation pass\<close>

text \<open>
  C1. The validation pass clears the four error displays and the success message,
  then checks every rule whatever the earlier rules gave: afterwards each field shows
  its error text and carries the invalid marker exactly when its own rule fails,
  whatever was displayed before; the success message is empty, no value has changed,
  and the result is the conjunction of the four rules.
\<close>

theorem validateForm_clears_and_checks_every_rule:
  "case validateForm d of (isValid, d') \<Rightarrow>
     isValid = (name_rule d \<and> email_rule d \<and> password_rule d \<and> confirm_rule d)
   \<and> errorText nameInput d' =
       (if name_rule d then [] else lit ''Name must be at least 3 characters long.'')
   \<and> invalid nameInput d' = (\<not> name_rule d)
   \<and> errorText emailInput d' =
       (if email_rule d then [] else lit ''Please enter a valid email address.'')
   \<and> invalid emailInput d' = (\<not> email_rule d)
   \<and> errorText passwordInput d' =
       (if password_rule d then [] else lit ''Password must be at least 8 characters.'')
   \<and> invalid passwordInput d' = (\<not> password_rule d)
   \<and> errorText confirmPasswordInput d' =
       (if confirm_rule d then [] else lit ''Passwords do not match.'')
   \<and> invalid confirmPasswordInput d' = (\<not> confirm_rule d)
   \<and> textContent (elements d' successMessage) = []
   \<and> (\<forall>n. fieldValue n d' = fieldValue n d)"
  unfolding split_def
  by (simp only: fst_validateForm errorText_validateForm invalid_validateForm
        successMessage_validateForm fieldValue_validateForm simp_thms)

theorem validateForm_clears_and_checks_every_rule_witness:
  "case validateForm (filled ''Al'' ''a@b.com'' ''longpass1'' ''longpass1'') of
     (isValid, d') \<Rightarrow>
       \<not> isValid
     \<and> errorText nameInput d' = lit ''Name must be at least 3 characters long.''
     \<and> invalid nameInput d'
     \<and> errorText emailInput d' = [] \<and> \<not> invalid emailInput d'
     \<and> errorText passwordInput d' = [] \<and> \<not> invalid passwordInput d'
     \<and> errorText confirmPasswordInput d' = [] \<and> \<not> invalid confirmPasswordInput d'
     \<and> textContent (elements d' successMessage) = []"
  using validateForm_clears_and_checks_every_rule
          [of "filled ''Al'' ''a@b.com'' ''longpass1'' ''longpass1''"]
  by (simp add: split_def rules_short_name)

text \<open>
  C2. The submit handler suppresses the native submission and runs the validation
  pass. When the pass succeeds, the success message holds the literal success text,
  the four inputs are empty, no field shows an error text or carries the invalid
  marker, and every other text, class list and value is as the pass left it; when it
  fails, the page is exactly as the pass left it, error displays included, and the
  success message is empty.
\<close>

theorem form_submit_outcome:
  "case form_submit e d of (e', d') \<Rightarrow>
     defaultPrevented e'
   \<and> (fst (validateForm d) \<longrightarrow>
        textContent (elements d' successMessage) = successText
      \<and> successText = lit ''Form submitted successfully! '' @ [0x00F0, 0x0178, 0x017D, 0x2030]
      \<and> fieldValue nameInput d' = [] \<and> fieldValue emailInput d' = []
      \<and> fieldValue passwordInput d' = [] \<and> fieldValue confirmPasswordInput d' = []
      \<and> errorText nameInput d' = [] \<and> \<not> invalid nameInput d'
      \<and> errorText emailInput d' = [] \<and> \<not> invalid emailInput d'
      \<and> errorText passwordInput d' = [] \<and> \<not> invalid passwordInput d'
      \<and> errorText confirmPasswordInput d' = [] \<and> \<not> invalid confirmPasswordInput d'
      \<and> (\<forall>n. n \<noteq> successMessage \<longrightarrow>
             textContent (elements d' n) = textContent (elements (snd (validateForm d)) n))
      \<and> (\<forall>n. classList (elements d' n) = classList (elements (snd (validateForm d)) n))
      \<and> (\<forall>n. n \<notin> {nameInput, emailInput, passwordInput, confirmPasswordInput} \<longrightarrow>
             fieldValue n d' = fieldValue n d))
   \<and> (\<not> fst (validateForm d) \<longrightarrow>
        d' = snd (validateForm d) \<and> textContent (elements d' successMessage) = [])"
proof -
  have e: "defaultPrevented (fst (form_submit e d))"
    by (simp add: form_submit_unfold preventDefault_def)
  have p: "textContent (elements (snd (form_submit e d)) successMessage) = successText
      \<and> fieldValue nameInput (snd (form_submit e d)) = []
      \<and> fieldValue emailInput (snd (form_submit e d)) = []
      \<and> fieldValue passwordInput (snd (form_submit e d)) = []
      \<and> fieldValue confirmPasswordInput (snd (form_submit e d)) = []"
    if "fst (validateForm d)"
    unfolding form_submit_pass [OF that]
    by (simp add: fieldValue_form_reset textContent_form_reset textContent_set_textContent)
  have f: "snd (form_submit e d) = snd (validateForm d)
      \<and> textContent (elements (snd (form_submit e d)) successMessage) = []"
    if "\<not> fst (validateForm d)"
    using that
    by (simp add: form_submit_unfold set_textContent_same [OF successMessage_validateForm]
          successMessage_validateForm)
  show ?thesis
    unfolding split_def
    using e p f passed_errors [where d = d and e = e] passed_frame [where d = d and e = e]
    by (simp add: successText_def successMessage_validateForm)
qed

theorem form_submit_outcome_witness:
  "errorText nameInput retyped = lit ''Name must be at least 3 characters long.''
 \<and> invalid nameInput retyped
 \<and> fst (validateForm retyped)
 \<and> (case form_submit \<lparr>defaultPrevented = False\<rparr> retyped of
      (e', d') \<Rightarrow>
        defaultPrevented e'
      \<and> textContent (elements d' successMessage)
          = lit ''Form submitted successfully! '' @ [0x00F0, 0x0178, 0x017D, 0x2030]
      \<and> textContent (elements d' successMessage) \<noteq> []
      \<and> fieldValue nameInput d' = [] \<and> fieldValue emailInput d' = []
      \<and> fieldValue passwordInput d' = [] \<and> fieldValue confirmPasswordInput d' = []
      \<and> errorText nameInput d' = [] \<and> \<not> invalid nameInput d')
 \<and> (case form_submit \<lparr>defaultPrevented = False\<rparr>
           (filled ''Al'' ''a@b.com'' ''longpass1'' ''longpass1'') of
      (e', d') \<Rightarrow>
        defaultPrevented e'
      \<and> d' = snd (validateForm (filled ''Al'' ''a@b.com'' ''longpass1'' ''longpass1''))
      \<and> textContent (elements d' successMessage) = []
      \<and> errorText nameInput d' = lit ''Name must be at least 3 characters long.'')"
proof -
  have n: "\<not> fst (validateForm (filled ''Al'' ''a@b.com'' ''longpass1'' ''longpass1''))"
    by (simp add: fst_validateForm rules_short_name)
  have m: "errorText nameInput (snd (validateForm (filled ''Al'' ''a@b.com'' ''longpass1'' ''longpass1'')))
      = lit ''Name must be at least 3 characters long.''"
    by (simp add: errorText_validateForm rules_short_name)
  from form_submit_outcome [where e = "\<lparr>defaultPrevented = False\<rparr>" and d = retyped]
       form_submit_outcome [where e = "\<lparr>defaultPrevented = False\<rparr>"
             and d = "filled ''Al'' ''a@b.com'' ''longpass1'' ''longpass1''"]
       retyped_facts n m
  show ?thesis
    by (auto simp add: split_def)
qed

section \<open>The rules at their thresholds\<close>

text \<open>
  C3. A name whose trimmed value has two code units fails the name rule and one with
  three passes; a password of seven code units, untrimmed, fails the password rule and
  one of eight passes; a name of white space only fails, since the value is trimmed
  before it is measured.
\<close>

theorem rule_boundaries_exact:
  "(length (trim (fieldValue nameInput d)) = 2 \<longrightarrow>
      \<not> fst (validateForm d) \<and> invalid nameInput (snd (validateForm d))
    \<and> errorText nameInput (snd (validateForm d))
        = lit ''Name must be at least 3 characters long.'')
 \<and> (length (trim (fieldValue nameInput d)) = 3 \<longrightarrow>
      \<not> invalid nameInput (snd (validateForm d))
    \<and> errorText nameInput (snd (validateForm d)) = [])
 \<and> (length (fieldValue passwordInput d) = 7 \<longrightarrow>
      \<not> fst (validateForm d) \<and> invalid passwordInput (snd (validateForm d))
    \<and> errorText passwordInput (snd (validateForm d))
        = lit ''Password must be at least 8 characters.'')
 \<and> (length (fieldValue passwordInput d) = 8 \<longrightarrow>
      \<not> invalid passwordInput (snd (validateForm d))
    \<and> errorText passwordInput (snd (validateForm d)) = [])
 \<and> ((\<forall>c\<in>set (fieldValue nameInput d). is_white_space c) \<longrightarrow>
      \<not> fst (validateForm d) \<and> invalid nameInput (snd (validateForm d)))"
  by (simp add: fst_validateForm invalid_validateForm errorText_validateForm
        name_rule_def password_rule_def trim_white_space_only)

theorem rule_boundaries_exact_witness:
  "(let d = filled ''  Al '' ''a@b.com'' ''1234567'' ''1234567'' in
      length (trim (fieldValue nameInput d)) = 2 \<and> length (fieldValue passwordInput d) = 7
    \<and> \<not> fst (validateForm d)
    \<and> invalid nameInput (snd (validateForm d)) \<and> invalid passwordInput (snd (validateForm d)))
 \<and> (let d = filled '' Bob  '' ''a@b.com'' ''12345678'' ''12345678'' in
      length (trim (fieldValue nameInput d)) = 3 \<and> length (fieldValue passwordInput d) = 8
    \<and> \<not> invalid nameInput (snd (validateForm d))
    \<and> \<not> invalid passwordInput (snd (validateForm d)))
 \<and> (let d = filled ''   '' ''a@b.com'' ''        '' ''        '' in
      (\<forall>c\<in>set (fieldValue nameInput d). is_white_space c)
    \<and> length (fieldValue passwordInput d) = 8
    \<and> \<not> fst (validateForm d) \<and> invalid nameInput (snd (validateForm d))
    \<and> \<not> invalid passwordInput (snd (validateForm d)))"
  using rule_boundaries_exact [of "filled ''  Al '' ''a@b.com'' ''1234567'' ''1234567''"]
        rule_boundaries_exact [of "filled '' Bob  '' ''a@b.com'' ''12345678'' ''12345678''"]
        rule_boundaries_exact [of "filled ''   '' ''a@b.com'' ''        '' ''        ''"]
  by (simp add: Let_def fieldValue_filled trim_examples)
     (simp add: lit_def is_white_space_def)

section \<open>Real-time feedback\<close>



section \<open>Error text and invalid marker\<close>

text \<open>
  C5. For every field the error text is non-empty exactly when the invalid marker is
  set: this holds after every validation pass and after every submission, whatever
  the page was before, and every key-release listener keeps it, as does every
  sequence of submissions, key releases and edits.
\<close>

theorem error_text_iff_invalid_marker:
  "consistent (snd (validateForm d))
 \<and> consistent (snd (form_submit e d))
 \<and> (consistent d \<longrightarrow> (\<forall>(f, h) \<in> set keyup_listeners. consistent (h d)))
 \<and> (consistent d \<longrightarrow> consistent (fold fire evs d))"
proof (intro conjI impI)
  assume "consistent d"
  then show "\<forall>(f, h) \<in> set keyup_listeners. consistent (h d)"
    using consistent_keyup [of d] by blast
qed (simp_all only: consistent_validateForm consistent_form_submit consistent_run)

theorem error_text_iff_invalid_marker_witness:
  "consistent (filled ''Al'' ''a@b.com'' ''password1'' ''password2'')
 \<and> consistent (snd (validateForm (filled ''Al'' ''a@b.com'' ''password1'' ''password2'')))
 \<and> consistent (nameInput_keyup (filled ''Al'' ''a@b.com'' ''password1'' ''password2''))
 \<and> consistent
      (fold fire [Submit, Edit nameInput (lit ''Alice''), Keyup nameInput,
                  Edit confirmPasswordInput (lit ''password1''), Keyup confirmPasswordInput,
                  Submit]
         (filled ''Al'' ''a@b.com'' ''password1'' ''password2''))"
proof -
  let ?d = "filled ''Al'' ''a@b.com'' ''password1'' ''password2''"
  have c: "consistent ?d"
    by (rule consistent_filled)
  have m: "(nameInput, nameInput_keyup) \<in> set keyup_listeners"
    by (simp add: keyup_listeners_def)
  note w = error_text_iff_invalid_marker [where d = ?d and e = "\<lparr>defaultPrevented = False\<rparr>"
      and evs = "[Submit, Edit nameInput (lit ''Alice''), Keyup nameInput,
                  Edit confirmPasswordInput (lit ''password1''), Keyup confirmPasswordInput,
                  Submit]"]
  from w c m have "consistent (nameInput_keyup ?d)"
    by fastforce
  with w c show ?thesis
    by blast
qed

section \<open>Two activations of the theme toggle\<close>

text \<open>
  C6, as amended. Two activations of the theme toggle return the dark-mode marker of
  the page root to what it was and leave the button with the label of that mode,
  \<open>Switch to Light Mode\<close> when dark and \<open>Switch to Dark Mode\<close> when light. The
  label of the markup is not restored; from any page reached by an activation, two
  more activations restore the page as a whole.
\<close>

theorem themeToggle_twice:
  "darkMode (themeToggle_click (themeToggle_click d)) = darkMode d
 \<and> themeLabel (themeToggle_click (themeToggle_click d)) =
      (if darkMode d then lit ''Switch to Light Mode'' else lit ''Switch to Dark Mode'')
 \<and> themeToggle_click (themeToggle_click (themeToggle_click d)) = themeToggle_click d"
  by (simp add: darkMode_click themeLabel_click themeToggle_click_thrice)

text \<open>
  A button labelled \<open>Toggle Theme\<close> on a light page is labelled
  \<open>Switch to Dark Mode\<close> after two activations: C6 as stated, "from any starting
  state of the label", fails here.
\<close>

theorem themeToggle_twice_counterexample:
  "themeLabel (themeToggle_click (themeToggle_click theme_page)) \<noteq> themeLabel theme_page"
  by (simp add: themeLabel_click darkMode_click)
     (simp add: themeLabel_def theme_page_def darkMode_def blank_def classList_contains_def
        themeToggleBtn_def getElementById_def lit_def)

theorem themeToggle_twice_witness:
  "\<not> darkMode theme_page
 \<and> \<not> darkMode (themeToggle_click (themeToggle_click theme_page))
 \<and> themeLabel (themeToggle_click (themeToggle_click theme_page)) = lit ''Switch to Dark Mode''
 \<and> themeLabel (themeToggle_click theme_page) = lit ''Switch to Light Mode''
 \<and> themeLabel (themeToggle_click (themeToggle_click (themeToggle_click theme_page)))
      = lit ''Switch to Light Mode''"
proof -
  have d: "\<not> darkMode theme_page"
    by (simp add: darkMode_def theme_page_def blank_def classList_contains_def
          themeToggleBtn_def getElementById_def)
  have l: "themeLabel (themeToggle_click theme_page) = lit ''Switch to Light Mode''"
    by (simp add: themeLabel_click d)
  from themeToggle_twice [of theme_page] d l show ?thesis
    by simp
qed

section \<open>FAQ pairs\<close>

text \<open>
  C7. Let A and B be two different questions, each with an answer as next sibling,
  the two answers being different elements (an element is the next sibling of at
  most one element). A click on A toggles the \<open>show\<close> marker of A's answer and the
  \<open>active\<close> marker of A, and nothing else: the \<open>show\<close> marker of B's answer and
  the \<open>active\<close> marker of B are as before, as is every other marker, text and value.
\<close>

theorem faq_pairs_independent:
  assumes "a \<noteq> b"
    and "nextElementSibling d a = Some aa"
    and "nextElementSibling d b = Some ab"
    and "aa \<noteq> ab"
  shows "case faqQuestion_click a d of
           Inl err \<Rightarrow> False
         | Inr d' \<Rightarrow>
             classList_contains ''show'' (elements d' ab)
               = classList_contains ''show'' (elements d ab)
           \<and> classList_contains ''active'' (elements d' b)
               = classList_contains ''active'' (elements d b)
           \<and> classList_contains ''show'' (elements d' aa)
               = (\<not> classList_contains ''show'' (elements d aa))
           \<and> classList_contains ''active'' (elements d' a)
               = (\<not> classList_contains ''active'' (elements d a))
           \<and> (\<forall>n t. (n, t) \<noteq> (aa, ''show'') \<and> (n, t) \<noteq> (a, ''active'') \<longrightarrow>
                 classList_contains t (elements d' n) = classList_contains t (elements d n))
           \<and> (\<forall>n. textContent (elements d' n) = textContent (elements d n)
                  \<and> inputValue (elements d' n) = inputValue (elements d n))
           \<and> nextElementSibling d' = nextElementSibling d"
  using assms
  by (simp add: faqQuestion_click_def update_def contains_toggle textContent_toggle
        inputValue_toggle)

theorem faq_pairs_independent_witness:
  "Anon 0 \<noteq> Anon 2
 \<and> nextElementSibling faq_page (Anon 0) = Some (Anon 1)
 \<and> nextElementSibling faq_page (Anon 2) = Some (Anon 3)
 \<and> Anon 1 \<noteq> Anon 3
 \<and> (case faqQuestion_click (Anon 0) faq_page of
       Inl err \<Rightarrow> False
     | Inr d' \<Rightarrow>
         classList_contains ''show'' (elements d' (Anon 3))
       \<and> \<not> classList_contains ''active'' (elements d' (Anon 2))
       \<and> classList_contains ''show'' (elements d' (Anon 1))
       \<and> classList_contains ''active'' (elements d' (Anon 0)))"
proof -
  have h: "Anon 0 \<noteq> Anon 2" "nextElementSibling faq_page (Anon 0) = Some (Anon 1)"
    "nextElementSibling faq_page (Anon 2) = Some (Anon 3)" "Anon 1 \<noteq> Anon 3"
    by (simp_all add: faq_page_def)
  have s: "classList_contains ''show'' (elements faq_page (Anon 3))"
    "\<not> classList_contains ''active'' (elements faq_page (Anon 2))"
    "\<not> classList_contains ''show'' (elements faq_page (Anon 1))"
    "\<not> classList_contains ''active'' (elements faq_page (Anon 0))"
    by (simp_all add: faq_page_def blank_def classList_contains_def)
  from faq_pairs_independent [OF h] s h show ?thesis
    by (auto split: sum.splits)
qed

section \<open>The pass as a function of the four values\<close>

text \<open>
  C8. A second validation pass on unchanged values returns the same result and
  leaves the page exactly as the first pass left it.
\<close>

theorem validateForm_idempotent: "validateForm (snd (validateForm d)) = validateForm d"
  by (simp add: validateForm_unfold [of "snd (validateForm d)"] rule_validateForm
        cleared_validateForm)
     (simp add: validateForm_unfold)

theorem validateForm_idempotent_witness:
  "validateForm (snd (validateForm (filled ''Al'' ''a@b.com'' ''password1'' ''password2'')))
     = (False, snd (validateForm (filled ''Al'' ''a@b.com'' ''password1'' ''password2'')))"
proof -
  have "\<not> fst (validateForm (filled ''Al'' ''a@b.com'' ''password1'' ''password2''))"
    by (simp add: fst_validateForm name_rule_def fieldValue_filled lit_def trim_def
          is_white_space_def)
  with validateForm_idempotent [of "filled ''Al'' ''a@b.com'' ''password1'' ''password2''"] show ?thesis
    by (simp add: prod_eq_iff)
qed

text \<open>
  C9. Two pages whose four inputs hold the same values, whatever their error texts,
  markers and success messages, get the same result from the validation pass and
  show the same error texts, invalid markers and success message afterwards.
\<close>

theorem validateForm_depends_on_values_only:
  "fieldValue nameInput d1 = fieldValue nameInput d2 \<Longrightarrow>
   fieldValue emailInput d1 = fieldValue emailInput d2 \<Longrightarrow>
   fieldValue passwordInput d1 = fieldValue passwordInput d2 \<Longrightarrow>
   fieldValue confirmPasswordInput d1 = fieldValue confirmPasswordInput d2 \<Longrightarrow>
     fst (validateForm d1) = fst (validateForm d2)
   \<and> errorText nameInput (snd (validateForm d1)) = errorText nameInput (snd (validateForm d2))
   \<and> errorText emailInput (snd (validateForm d1)) = errorText emailInput (snd (validateForm d2))
   \<and> errorText passwordInput (snd (validateForm d1)) = errorText passwordInput (snd (validateForm d2))
   \<and> errorText confirmPasswordInput (snd (validateForm d1)) = errorText confirmPasswordInput (snd (validateForm d2))
   \<and> invalid nameInput (snd (validateForm d1)) = invalid nameInput (snd (validateForm d2))
   \<and> invalid emailInput (snd (validateForm d1)) = invalid emailInput (snd (validateForm d2))
   \<and> invalid passwordInput (snd (validateForm d1)) = invalid passwordInput (snd (validateForm d2))
   \<and> invalid confirmPasswordInput (snd (validateForm d1)) = invalid confirmPasswordInput (snd (validateForm d2))
   \<and> textContent (elements (snd (validateForm d1)) successMessage)
       = textContent (elements (snd (validateForm d2)) successMessage)"
  by (simp add: fst_validateForm invalid_validateForm errorText_validateForm
        successMessage_validateForm rule_defs)

theorem validateForm_depends_on_values_only_witness:
  "errorText emailInput stale = lit ''stale error''
 \<and> errorText emailInput (filled ''Al'' ''a@b.com'' ''longpass1'' ''longpass1'') = []
 \<and> fst (validateForm stale)
      = fst (validateForm (filled ''Al'' ''a@b.com'' ''longpass1'' ''longpass1''))
 \<and> errorText emailInput (snd (validateForm stale)) = []
 \<and> \<not> invalid emailInput (snd (validateForm stale))
 \<and> errorText nameInput (snd (validateForm stale))
      = lit ''Name must be at least 3 characters long.''
 \<and> textContent (elements (snd (validateForm stale)) successMessage) = []"
proof -
  let ?d = "filled ''Al'' ''a@b.com'' ''longpass1'' ''longpass1''"
  have p: "errorText emailInput stale = lit ''stale error''" "errorText emailInput ?d = []"
    by (simp_all add: stale_def nodes_def errorText_displayError)
       (simp add: errorText_def filled_def dom_defs nodes_def blank_def)
  have q: "errorText emailInput (snd (validateForm ?d)) = []"
    "\<not> invalid emailInput (snd (validateForm ?d))"
    "errorText nameInput (snd (validateForm ?d))
       = lit ''Name must be at least 3 characters long.''"
    "textContent (elements (snd (validateForm ?d)) successMessage) = []"
    by (simp_all add: errorText_validateForm invalid_validateForm rules_short_name
          successMessage_validateForm)
  from validateForm_depends_on_values_only [of stale ?d] p q show ?thesis
    by (simp add: fieldValue_stale)
qed

text \<open>
  C10. With the password and its confirmation both empty, a validation pass shows no
  error on the confirmation although the password rule fails; on a form left empty
  the name, the email address and the password show their errors and the
  confirmation shows none.
\<close>

theorem empty_passwords_match:
  "(fieldValue passwordInput d = [] \<and> fieldValue confirmPasswordInput d = [] \<longrightarrow>
      \<not> invalid confirmPasswordInput (snd (validateForm d))
    \<and> errorText confirmPasswordInput (snd (validateForm d)) = []
    \<and> invalid passwordInput (snd (validateForm d))
    \<and> errorText passwordInput (snd (validateForm d)) = lit ''Password must be at least 8 characters.''
    \<and> \<not> fst (validateForm d))
 \<and> (fieldValue nameInput d = [] \<and> fieldValue emailInput d = []
    \<and> fieldValue passwordInput d = [] \<and> fieldValue confirmPasswordInput d = [] \<longrightarrow>
      invalid nameInput (snd (validateForm d))
    \<and> invalid emailInput (snd (validateForm d))
    \<and> invalid passwordInput (snd (validateForm d))
    \<and> \<not> invalid confirmPasswordInput (snd (validateForm d))
    \<and> errorText nameInput (snd (validateForm d)) = lit ''Name must be at least 3 characters long.''
    \<and> errorText emailInput (snd (validateForm d)) = lit ''Please enter a valid email address.''
    \<and> errorText passwordInput (snd (validateForm d)) = lit ''Password must be at least 8 characters.''
    \<and> errorText confirmPasswordInput (snd (validateForm d)) = [])"
  by (simp add: fst_validateForm invalid_validateForm errorText_validateForm
        name_rule_def password_rule_def confirm_rule_def email_rule_empty trim_def)

theorem empty_passwords_match_witness:
  "(let d = snd (validateForm (filled [] [] [] [])) in
      invalid nameInput d \<and> invalid emailInput d \<and> invalid passwordInput d
    \<and> \<not> invalid confirmPasswordInput d \<and> errorText confirmPasswordInput d = [])
 \<and> \<not> fst (validateForm (filled [] [] [] []))"
  using empty_passwords_match [of "filled [] [] [] []"]
  by (simp add: Let_def fieldValue_filled lit_def)

end
